theory Spec2Isabelle
  imports Main
begin

section \<open>Data model (types.ts)\<close>

text \<open>
  The repository has two back ends behind the same \<open>api\<close> interface: the in-memory
  \<open>MockBackendService\<close> and the Firestore-backed \<open>FirebaseService\<close>. Each comes
  with its own \<open>types.ts\<close>; the Firestore one adds fields to the in-memory one, which
  is written here as record extension. Identifiers are JavaScript strings; every id the
  code itself makes is ASCII, and is modelled as \<open>string\<close>.
\<close>

datatype UserRole = TEACHER | STUDENT | ADMIN

datatype StreamMode = CAMERA | SCREEN | WHITEBOARD

record User =
  u_id :: string
  u_role :: UserRole
  u_name :: string
  u_email :: "string option"
  u_student_code :: "string option"
  u_avatar_url :: "string option"

record ClassModel =
  c_id :: string
  c_teacher_id :: string
  c_title :: string
  c_description :: string
  c_created_at :: string
  c_isLive :: "bool option"

record Enrollment =
  e_id :: string
  e_class_id :: string
  e_student_id :: string

record StudentAnalytics =
  a_id :: string
  a_name :: string
  a_score :: nat
  a_attendance :: nat

record LiveSessionState =
  classId :: string
  isLive :: bool
  mode :: StreamMode
  raisedHands :: "string list"
  activeSpeakers :: "string list"

text \<open>The Firestore variants (src/types.ts of the Firestore build).\<close>

record FbUser = User +
  u_created_at :: "string option"

record FbClassModel =
  fc_id :: string
  fc_teacher_id :: string
  fc_title :: string
  fc_description :: string
  fc_created_at :: string
  fc_isLive :: bool
  fc_join_code :: "string option"

record FbEnrollment = Enrollment +
  e_enrolled_at :: string

record FbStudentAnalytics = StudentAnalytics +
  a_submissions_count :: nat

record FbLiveSessionState = LiveSessionState +
  started_at :: nat

section \<open>The in-memory back end (MockBackendService)\<close>

text \<open>
  The service object holds the arrays \<open>users\<close>, \<open>classes\<close> and \<open>enrollments\<close>; the
  module-level object \<open>LIVE_SESSIONS\<close> maps a class id to its session. The video, exam
  and forum arrays are independent of everything below and are left out.

  \<open>LIVE_SESSIONS\<close> is a plain JavaScript object, so reading \<open>LIVE_SESSIONS[classId]\<close>
  finds the session stored under that id and otherwise whatever the object inherits from
  \<open>Object.prototype\<close> under that name. The inherited properties are part of the state:
  the functions every object has (\<open>constructor\<close>, \<open>toString\<close> and the like), the
  prototype object itself under \<open>__proto__\<close>, and a \<open>mode\<close> string once
  \<open>updateStreamMode\<close> has been called with \<open>__proto__\<close>. All of them are truthy and
  none has a \<open>raisedHands\<close> or \<open>activeSpeakers\<close> property.
\<close>

datatype js_error = TypeError

datatype inherited_value = BuiltinFunction | PrototypeObject | ModeString StreamMode

datatype session_value = Session LiveSessionState | Inherited inherited_value

record MockState =
  users :: "User list"
  classes :: "ClassModel list"
  enrollments :: "Enrollment list"
  LIVE_SESSIONS :: "string \<rightharpoonup> LiveSessionState"
  Object_prototype :: "string \<rightharpoonup> inherited_value"

text \<open>The properties of \<open>Object.prototype\<close> when the module loads.\<close>

definition standard_Object_prototype :: "string \<rightharpoonup> inherited_value" where
  "standard_Object_prototype =
     map_of [(''constructor'', BuiltinFunction), (''__defineGetter__'', BuiltinFunction),
             (''__defineSetter__'', BuiltinFunction), (''hasOwnProperty'', BuiltinFunction),
             (''__lookupGetter__'', BuiltinFunction), (''__lookupSetter__'', BuiltinFunction),
             (''isPrototypeOf'', BuiltinFunction), (''propertyIsEnumerable'', BuiltinFunction),
             (''toString'', BuiltinFunction), (''valueOf'', BuiltinFunction),
             (''__proto__'', PrototypeObject), (''toLocaleString'', BuiltinFunction)]"

definition MOCK_TEACHER_ID :: string where
  "MOCK_TEACHER_ID = ''teacher-1''"

definition INITIAL_USERS :: "User list" where
  "INITIAL_USERS =
     [\<lparr>u_id = MOCK_TEACHER_ID, u_role = TEACHER, u_name = ''Mr. Anderson'',
       u_email = None, u_student_code = None, u_avatar_url = None\<rparr>]"

text \<open>
  \<open>created1\<close> and \<open>created2\<close> are the values of the two calls of
  \<open>new Date().toISOString()\<close> made when the module loads.
\<close>

definition INITIAL_CLASSES :: "string \<Rightarrow> string \<Rightarrow> ClassModel list" where
  "INITIAL_CLASSES created1 created2 =
     [\<lparr>c_id = ''class-1'', c_teacher_id = MOCK_TEACHER_ID, c_title = ''Advanced Mathematics'',
       c_description = ''Calculus and Linear Algebra'', c_created_at = created1,
       c_isLive = Some False\<rparr>,
      \<lparr>c_id = ''class-2'', c_teacher_id = MOCK_TEACHER_ID, c_title = ''Physics 101'',
       c_description = ''Mechanics and Thermodynamics'', c_created_at = created2,
       c_isLive = Some False\<rparr>]"

definition INITIAL_ENROLLMENTS :: "Enrollment list" where
  "INITIAL_ENROLLMENTS = []"

definition initialState :: "string \<Rightarrow> string \<Rightarrow> MockState" where
  "initialState created1 created2 =
     \<lparr>users = INITIAL_USERS, classes = INITIAL_CLASSES created1 created2,
      enrollments = INITIAL_ENROLLMENTS, LIVE_SESSIONS = Map.empty,
      Object_prototype = standard_Object_prototype\<rparr>"

subsection \<open>Helpers for JavaScript idioms\<close>

text \<open>
  \<open>arr.find(p)\<close> is \<^const>\<open>find\<close>. Assigning to a field of the object that \<open>find\<close>
  returned changes the first matching element of the array in place.
\<close>

fun update_first :: "('a \<Rightarrow> bool) \<Rightarrow> ('a \<Rightarrow> 'a) \<Rightarrow> 'a list \<Rightarrow> 'a list" where
  "update_first P f [] = []"
| "update_first P f (x # xs) = (if P x then f x # xs else x # update_first P f xs)"

text \<open>The decimal rendering of a number inside a template string.\<close>

definition digit_char :: "nat \<Rightarrow> char" where
  "digit_char d = char_of (48 + d)"

function string_of_nat :: "nat \<Rightarrow> string" where
  "string_of_nat n =
     (if n < 10 then [digit_char n] else string_of_nat (n div 10) @ [digit_char (n mod 10)])"
  by pat_completeness auto
termination
  by (relation "measure (\<lambda>n. n)") auto

declare string_of_nat.simps [simp del]

subsection \<open>Accounts and enrolment\<close>

text \<open>
  \<open>now\<close> is \<open>Date.now()\<close> (\<open>now'\<close> a second reading in the same call);
  \<open>code\<close> is the string drawn from \<open>Math.random()\<close>.
\<close>

definition generateStudentCode ::
  "nat \<Rightarrow> string \<Rightarrow> string \<Rightarrow> MockState \<Rightarrow> (User \<times> string) \<times> MockState" where
  "generateStudentCode now code nm s =
     (let newUser = \<lparr>u_id = ''student-'' @ string_of_nat now, u_role = STUDENT, u_name = nm,
                      u_email = None, u_student_code = Some code, u_avatar_url = None\<rparr>
      in ((newUser, code), s\<lparr>users := users s @ [newUser]\<rparr>))"

definition createStudentAndEnroll ::
  "nat \<Rightarrow> nat \<Rightarrow> string \<Rightarrow> string \<Rightarrow> string \<Rightarrow> MockState
     \<Rightarrow> (User \<times> string) \<times> MockState" where
  "createStudentAndEnroll now now' code cid nm s =
     (let newUser = \<lparr>u_id = ''student-'' @ string_of_nat now, u_role = STUDENT, u_name = nm,
                      u_email = None, u_student_code = Some code, u_avatar_url = None\<rparr>
      in ((newUser, code),
          s\<lparr>users := users s @ [newUser],
            enrollments := enrollments s @
              [\<lparr>e_id = ''enroll-'' @ string_of_nat now', e_class_id = cid,
                e_student_id = u_id newUser\<rparr>]\<rparr>))"

definition enrollStudent :: "nat \<Rightarrow> string \<Rightarrow> string \<Rightarrow> MockState \<Rightarrow> MockState" where
  "enrollStudent now cid studentId s =
     s\<lparr>enrollments := enrollments s @
         [\<lparr>e_id = ''enroll-'' @ string_of_nat now, e_class_id = cid,
           e_student_id = studentId\<rparr>]\<rparr>"

definition getUserById :: "MockState \<Rightarrow> string \<Rightarrow> User option" where
  "getUserById s userId = find (\<lambda>u. u_id u = userId) (users s)"

subsection \<open>Classes\<close>

definition getClass :: "MockState \<Rightarrow> string \<Rightarrow> ClassModel option" where
  "getClass s cid = find (\<lambda>c. c_id c = cid) (classes s)"

definition createClass ::
  "nat \<Rightarrow> string \<Rightarrow> string \<Rightarrow> string \<Rightarrow> string \<Rightarrow> MockState \<Rightarrow> ClassModel \<times> MockState" where
  "createClass now created teacherId title description s =
     (let newClass = \<lparr>c_id = ''class-'' @ string_of_nat now, c_teacher_id = teacherId,
                       c_title = title, c_description = description, c_created_at = created,
                       c_isLive = Some False\<rparr>
      in (newClass, s\<lparr>classes := classes s @ [newClass]\<rparr>))"

subsection \<open>Live streaming and interaction\<close>

text \<open>
  The flag is set on the class record \<open>find\<close> returned. The assignment to
  \<open>LIVE_SESSIONS[classId]\<close> and the \<open>delete\<close> act on the object's own property
  of that name. (Only under the name \<open>__proto__\<close> would they do something else, and
  they run only for the id of a class record: those ids are \<open>class-1\<close>, \<open>class-2\<close>
  and the ids \<open>createClass\<close> makes, all starting with \<open>class-\<close>.)
\<close>

definition setClassLiveStatus :: "string \<Rightarrow> bool \<Rightarrow> MockState \<Rightarrow> MockState" where
  "setClassLiveStatus cid live s =
     (case find (\<lambda>c. c_id c = cid) (classes s) of
        None \<Rightarrow> s
      | Some cls \<Rightarrow>
          (let s1 = s\<lparr>classes :=
                        update_first (\<lambda>c. c_id c = cid) (\<lambda>c. c\<lparr>c_isLive := Some live\<rparr>)
                          (classes s)\<rparr>
           in if live
              then s1\<lparr>LIVE_SESSIONS := (LIVE_SESSIONS s1)
                        (cid \<mapsto> \<lparr>classId = cid, isLive = True, mode = CAMERA,
                                  raisedHands = [], activeSpeakers = []\<rparr>)\<rparr>
              else s1\<lparr>LIVE_SESSIONS := (LIVE_SESSIONS s1)(cid := None)\<rparr>))"

text \<open>
  The value of \<open>LIVE_SESSIONS[classId]\<close>: the session stored under the id, else the
  inherited property of that name, else undefined.
\<close>

definition session_property :: "MockState \<Rightarrow> string \<Rightarrow> session_value option" where
  "session_property s cid =
     (case LIVE_SESSIONS s cid of
        Some sess \<Rightarrow> Some (Session sess)
      | None \<Rightarrow> map_option Inherited (Object_prototype s cid))"

text \<open>\<open>LIVE_SESSIONS[classId] || null\<close>; every value the property can have is truthy.\<close>

definition getLiveSessionState :: "MockState \<Rightarrow> string \<Rightarrow> session_value option" where
  "getLiveSessionState s cid = session_property s cid"

text \<open>
  The session mutations return the new store, or the \<open>TypeError\<close> the call throws. On
  an inherited value the guard \<open>if (LIVE_SESSIONS[classId])\<close> passes. Then
  \<open>updateStreamMode\<close> assigns \<open>mode\<close> on that value: on a function this changes
  nothing that is read again, on the prototype object it gives every object an inherited
  \<open>mode\<close>, and on a string it throws (module code is strict). The membership operations
  read \<open>raisedHands\<close> or \<open>activeSpeakers\<close> of the value, which is undefined, and throw
  on the method call before anything is written.
\<close>

definition updateStreamMode :: "string \<Rightarrow> StreamMode \<Rightarrow> MockState \<Rightarrow> js_error + MockState" where
  "updateStreamMode cid m s =
     (case session_property s cid of
        None \<Rightarrow> Inr s
      | Some (Session sess) \<Rightarrow>
          Inr (s\<lparr>LIVE_SESSIONS := (LIVE_SESSIONS s)(cid \<mapsto> sess\<lparr>mode := m\<rparr>)\<rparr>)
      | Some (Inherited BuiltinFunction) \<Rightarrow> Inr s
      | Some (Inherited PrototypeObject) \<Rightarrow>
          Inr (s\<lparr>Object_prototype := (Object_prototype s)(''mode'' \<mapsto> ModeString m)\<rparr>)
      | Some (Inherited (ModeString v)) \<Rightarrow> Inl TypeError)"

definition raiseHand :: "string \<Rightarrow> string \<Rightarrow> MockState \<Rightarrow> js_error + MockState" where
  "raiseHand cid studentId s =
     (case session_property s cid of
        None \<Rightarrow> Inr s
      | Some (Inherited v) \<Rightarrow> Inl TypeError
      | Some (Session sess) \<Rightarrow>
          if studentId \<in> set (raisedHands sess) then Inr s
          else Inr (s\<lparr>LIVE_SESSIONS := (LIVE_SESSIONS s)
                        (cid \<mapsto> sess\<lparr>raisedHands := raisedHands sess @ [studentId]\<rparr>)\<rparr>))"

definition lowerHand :: "string \<Rightarrow> string \<Rightarrow> MockState \<Rightarrow> js_error + MockState" where
  "lowerHand cid studentId s =
     (case session_property s cid of
        None \<Rightarrow> Inr s
      | Some (Inherited v) \<Rightarrow> Inl TypeError
      | Some (Session sess) \<Rightarrow>
          Inr (s\<lparr>LIVE_SESSIONS := (LIVE_SESSIONS s)
                   (cid \<mapsto> sess\<lparr>raisedHands :=
                                filter (\<lambda>i. i \<noteq> studentId) (raisedHands sess)\<rparr>)\<rparr>))"

definition allowSpeaker :: "string \<Rightarrow> string \<Rightarrow> MockState \<Rightarrow> js_error + MockState" where
  "allowSpeaker cid studentId s =
     (case session_property s cid of
        None \<Rightarrow> Inr s
      | Some (Inherited v) \<Rightarrow> Inl TypeError
      | Some (Session sess) \<Rightarrow>
          (let s1 = (if studentId \<in> set (activeSpeakers sess) then s
                     else s\<lparr>LIVE_SESSIONS := (LIVE_SESSIONS s)
                              (cid \<mapsto> sess\<lparr>activeSpeakers :=
                                           activeSpeakers sess @ [studentId]\<rparr>)\<rparr>)
           in lowerHand cid studentId s1))"

definition muteSpeaker :: "string \<Rightarrow> string \<Rightarrow> MockState \<Rightarrow> js_error + MockState" where
  "muteSpeaker cid studentId s =
     (case session_property s cid of
        None \<Rightarrow> Inr s
      | Some (Inherited v) \<Rightarrow> Inl TypeError
      | Some (Session sess) \<Rightarrow>
          Inr (s\<lparr>LIVE_SESSIONS := (LIVE_SESSIONS s)
                   (cid \<mapsto> sess\<lparr>activeSpeakers :=
                                filter (\<lambda>i. i \<noteq> studentId) (activeSpeakers sess)\<rparr>)\<rparr>))"

subsection \<open>Analytics\<close>

text \<open>
  The loop \<open>for (i = 0; i < id.length; i++) seed += id.charCodeAt(i)\<close>, started at
  \<open>seed = 0\<close>.
\<close>

definition seedOf :: "string \<Rightarrow> nat" where
  "seedOf sid = foldl (\<lambda>seed ch. seed + of_char ch) 0 sid"

definition analyticsRow :: "User \<Rightarrow> StudentAnalytics" where
  "analyticsRow student =
     (let seed = seedOf (u_id student)
      in \<lparr>a_id = u_id student, a_name = u_name student,
          a_score = 70 + seed mod 30, a_attendance = 80 + seed mod 20\<rparr>)"

definition getClassAnalytics :: "MockState \<Rightarrow> string \<Rightarrow> StudentAnalytics list" where
  "getClassAnalytics s cid =
     (let classEnrollments = filter (\<lambda>e. e_class_id e = cid) (enrollments s);
          students = map the (filter (\<lambda>u. u \<noteq> None)
                       (map (\<lambda>e. find (\<lambda>u. u_id u = e_student_id e) (users s))
                          classEnrollments))
      in map analyticsRow students)"

section \<open>The Firestore back end (FirebaseService)\<close>

text \<open>
  The Firestore client library is not part of the repository. Its documented contract is
  written out once, on a collection seen as a map from document key to document:
  \<open>getDoc\<close> reads a snapshot (\<open>snap.exists()\<close> is \<open>\<noteq> None\<close>), \<open>setDoc\<close> creates or
  overwrites, \<open>deleteDoc\<close> removes and succeeds whether or not the document is there,
  and \<open>updateDoc\<close> changes the given fields of an existing document and rejects when the
  document does not exist. Network and permission failures are not modelled.
\<close>

datatype fs_error = NotFound | InvalidArgument

definition getDoc :: "('k \<rightharpoonup> 'v) \<Rightarrow> 'k \<Rightarrow> 'v option" where
  "getDoc coll k = coll k"

definition setDoc :: "('k \<rightharpoonup> 'v) \<Rightarrow> 'k \<Rightarrow> 'v \<Rightarrow> ('k \<rightharpoonup> 'v)" where
  "setDoc coll k d = coll(k \<mapsto> d)"

definition deleteDoc :: "('k \<rightharpoonup> 'v) \<Rightarrow> 'k \<Rightarrow> ('k \<rightharpoonup> 'v)" where
  "deleteDoc coll k = coll(k := None)"

definition updateDoc :: "('k \<rightharpoonup> 'v) \<Rightarrow> 'k \<Rightarrow> ('v \<Rightarrow> 'v) \<Rightarrow> fs_error + ('k \<rightharpoonup> 'v)" where
  "updateDoc coll k upd =
     (case coll k of None \<Rightarrow> Inl NotFound | Some d \<Rightarrow> Inr (coll(k \<mapsto> upd d)))"

text \<open>
  \<open>doc(db, collection, id)\<close> builds the reference from the path \<open>collection/id\<close>. The
  library throws when the id contains \<open>//\<close>; it splits the id at \<open>/\<close>, drops the empty
  segments, and throws unless the path then has an even number of segments, that is,
  unless the id contributes an odd number. The key of the document below the collection
  is the remaining segments, joined by \<open>/\<close>: an id without a slash is its own key, the
  empty id is refused.
\<close>

fun has_double_slash :: "string \<Rightarrow> bool" where
  "has_double_slash (a # b # cs) =
     ((a = CHR ''/'' \<and> b = CHR ''/'') \<or> has_double_slash (b # cs))"
| "has_double_slash cs = False"

fun split_slash :: "string \<Rightarrow> string list" where
  "split_slash [] = [[]]"
| "split_slash (c # cs) =
     (if c = CHR ''/'' then [] # split_slash cs
      else (case split_slash cs of [] \<Rightarrow> [[c]] | seg # rest \<Rightarrow> (c # seg) # rest))"

fun join_slash :: "string list \<Rightarrow> string" where
  "join_slash [] = []"
| "join_slash [seg] = seg"
| "join_slash (seg # rest) = seg @ CHR ''/'' # join_slash rest"

definition doc :: "string \<Rightarrow> fs_error + string" where
  "doc docId =
     (if has_double_slash docId then Inl InvalidArgument
      else (let segments = filter (\<lambda>seg. seg \<noteq> []) (split_slash docId)
            in if odd (length segments) then Inr (join_slash segments)
               else Inl InvalidArgument))"

text \<open>
  The collections the modelled operations touch, each a map from document key to
  document. \<open>fb_enrollments\<close> lists the documents of the \<open>enrollments\<close> collection in
  the order a query returns them.
\<close>

record FbState =
  fb_users :: "string \<rightharpoonup> FbUser"
  fb_classes :: "string \<rightharpoonup> FbClassModel"
  fb_enrollments :: "FbEnrollment list"
  fb_sessions :: "string \<rightharpoonup> FbLiveSessionState"

definition fb_empty :: FbState where
  "fb_empty = \<lparr>fb_users = Map.empty, fb_classes = Map.empty, fb_enrollments = [],
               fb_sessions = Map.empty\<rparr>"

text \<open>\<open>newId\<close> is the result of \<open>uuidv4()\<close>; \<open>code\<close> the string from \<open>Math.random()\<close>.\<close>

definition fb_createClass ::
  "string \<Rightarrow> string \<Rightarrow> string \<Rightarrow> string \<Rightarrow> string \<Rightarrow> string \<Rightarrow> FbState
     \<Rightarrow> fs_error + FbClassModel \<times> FbState" where
  "fb_createClass newId created code teacherId title description t =
     (let newClass = \<lparr>fc_id = newId, fc_teacher_id = teacherId, fc_title = title,
                       fc_description = description, fc_created_at = created,
                       fc_isLive = False, fc_join_code = Some code\<rparr>
      in case doc newId of
           Inl e \<Rightarrow> Inl e
         | Inr k \<Rightarrow> Inr (newClass, t\<lparr>fb_classes := setDoc (fb_classes t) k newClass\<rparr>))"

text \<open>
  \<open>now\<close> is \<open>Date.now()\<close>. A throw or a rejected \<open>await\<close> ends the call before the
  next write. The class reference and the session reference are built from the same id.
\<close>

definition fb_setClassLiveStatus :: "string \<Rightarrow> bool \<Rightarrow> nat \<Rightarrow> FbState \<Rightarrow> fs_error + FbState" where
  "fb_setClassLiveStatus cid live now t =
     (case doc cid of
        Inl e \<Rightarrow> Inl e
      | Inr k \<Rightarrow>
          (case updateDoc (fb_classes t) k (\<lambda>c. c\<lparr>fc_isLive := live\<rparr>) of
             Inl e \<Rightarrow> Inl e
           | Inr cs \<Rightarrow>
               (let t1 = t\<lparr>fb_classes := cs\<rparr>
                in if live
                   then Inr (t1\<lparr>fb_sessions := setDoc (fb_sessions t1) k
                                  \<lparr>classId = cid, isLive = True, mode = CAMERA,
                                   raisedHands = [], activeSpeakers = [],
                                   started_at = now\<rparr>\<rparr>)
                   else Inr (t1\<lparr>fb_sessions := deleteDoc (fb_sessions t1) k\<rparr>))))"

text \<open>
  What a subscriber's callback receives for the store \<open>t\<close>: the session or null; the
  call throws when the reference can not be built.
\<close>

definition fb_subscribeToSession ::
  "FbState \<Rightarrow> string \<Rightarrow> fs_error + FbLiveSessionState option" where
  "fb_subscribeToSession t cid =
     (case doc cid of Inl e \<Rightarrow> Inl e | Inr k \<Rightarrow> Inr (getDoc (fb_sessions t) k))"

text \<open>\<open>updateDoc(sessionRef, fields)\<close>, with \<open>k\<close> the key of the session reference.\<close>

definition updateSession ::
  "string \<Rightarrow> (FbLiveSessionState \<Rightarrow> FbLiveSessionState) \<Rightarrow> FbState \<Rightarrow> fs_error + FbState" where
  "updateSession k upd t =
     (case updateDoc (fb_sessions t) k upd of
        Inl e \<Rightarrow> Inl e
      | Inr ss \<Rightarrow> Inr (t\<lparr>fb_sessions := ss\<rparr>))"

definition fb_updateStreamMode :: "string \<Rightarrow> StreamMode \<Rightarrow> FbState \<Rightarrow> fs_error + FbState" where
  "fb_updateStreamMode cid m t =
     (case doc cid of
        Inl e \<Rightarrow> Inl e
      | Inr k \<Rightarrow> updateSession k (\<lambda>d. d\<lparr>mode := m\<rparr>) t)"

definition fb_raiseHand :: "string \<Rightarrow> string \<Rightarrow> FbState \<Rightarrow> fs_error + FbState" where
  "fb_raiseHand cid userId t =
     (case doc cid of
        Inl e \<Rightarrow> Inl e
      | Inr k \<Rightarrow>
          (case getDoc (fb_sessions t) k of
             None \<Rightarrow> Inr t
           | Some data \<Rightarrow>
               if userId \<in> set (raisedHands data) then Inr t
               else (let newHands = raisedHands data @ [userId]
                     in updateSession k (\<lambda>d. d\<lparr>raisedHands := newHands\<rparr>) t)))"

definition fb_lowerHand :: "string \<Rightarrow> string \<Rightarrow> FbState \<Rightarrow> fs_error + FbState" where
  "fb_lowerHand cid userId t =
     (case doc cid of
        Inl e \<Rightarrow> Inl e
      | Inr k \<Rightarrow>
          (case getDoc (fb_sessions t) k of
             None \<Rightarrow> Inr t
           | Some data \<Rightarrow>
               (let newHands = filter (\<lambda>i. i \<noteq> userId) (raisedHands data)
                in updateSession k (\<lambda>d. d\<lparr>raisedHands := newHands\<rparr>) t)))"

definition fb_allowSpeaker :: "string \<Rightarrow> string \<Rightarrow> FbState \<Rightarrow> fs_error + FbState" where
  "fb_allowSpeaker cid userId t =
     (case doc cid of
        Inl e \<Rightarrow> Inl e
      | Inr k \<Rightarrow>
          (case getDoc (fb_sessions t) k of
             None \<Rightarrow> Inr t
           | Some data \<Rightarrow>
               (let newSpeakers = activeSpeakers data @ [userId];
                    newHands = filter (\<lambda>i. i \<noteq> userId) (raisedHands data)
                in updateSession k
                     (\<lambda>d. d\<lparr>activeSpeakers := newSpeakers, raisedHands := newHands\<rparr>) t)))"

definition fb_getUserById :: "FbState \<Rightarrow> string \<Rightarrow> fs_error + FbUser option" where
  "fb_getUserById t userId =
     (case doc userId of Inl e \<Rightarrow> Inl e | Inr k \<Rightarrow> Inr (getDoc (fb_users t) k))"

text \<open>The row pushed for a profile.\<close>

definition fb_analyticsRow :: "FbUser \<Rightarrow> FbStudentAnalytics" where
  "fb_analyticsRow user =
     \<lparr>a_id = u_id user, a_name = u_name user, a_score = 85, a_attendance = 90,
      a_submissions_count = 5\<rparr>"

text \<open>
  The loop over the enrolment documents, pushing one row for each profile found; a
  reference that can not be built ends the call.
\<close>

fun fb_analyticsLoop ::
  "FbState \<Rightarrow> FbEnrollment list \<Rightarrow> FbStudentAnalytics list
     \<Rightarrow> fs_error + FbStudentAnalytics list" where
  "fb_analyticsLoop t [] stats = Inr stats"
| "fb_analyticsLoop t (enroll # docs) stats =
     (case doc (e_student_id enroll) of
        Inl e \<Rightarrow> Inl e
      | Inr k \<Rightarrow>
          (case getDoc (fb_users t) k of
             None \<Rightarrow> fb_analyticsLoop t docs stats
           | Some user \<Rightarrow>
               fb_analyticsLoop t docs (stats @ [fb_analyticsRow user])))"

definition fb_getClassAnalytics ::
  "FbState \<Rightarrow> string \<Rightarrow> fs_error + FbStudentAnalytics list" where
  "fb_getClassAnalytics t cid =
     fb_analyticsLoop t (filter (\<lambda>e. e_class_id e = cid) (fb_enrollments t)) []"

section \<open>Runs of the in-memory back end\<close>

text \<open>
  Every call that changes the modelled state, as a command; results are dropped. A
  session mutation that throws has written nothing, so the store stays as it was.
\<close>

datatype command =
    CreateClass nat string string string string
  | SetClassLiveStatus string bool
  | UpdateStreamMode string StreamMode
  | RaiseHand string string
  | LowerHand string string
  | AllowSpeaker string string
  | MuteSpeaker string string
  | EnrollStudent nat string string
  | GenerateStudentCode nat string string
  | CreateStudentAndEnroll nat nat string string string

definition store_after :: "MockState \<Rightarrow> js_error + MockState \<Rightarrow> MockState" where
  "store_after s r = (case r of Inl e \<Rightarrow> s | Inr s' \<Rightarrow> s')"

fun exec :: "command \<Rightarrow> MockState \<Rightarrow> MockState" where
  "exec (CreateClass now created teacherId title description) s =
     snd (createClass now created teacherId title description s)"
| "exec (SetClassLiveStatus cid live) s = setClassLiveStatus cid live s"
| "exec (UpdateStreamMode cid m) s = store_after s (updateStreamMode cid m s)"
| "exec (RaiseHand cid u) s = store_after s (raiseHand cid u s)"
| "exec (LowerHand cid u) s = store_after s (lowerHand cid u s)"
| "exec (AllowSpeaker cid u) s = store_after s (allowSpeaker cid u s)"
| "exec (MuteSpeaker cid u) s = store_after s (muteSpeaker cid u s)"
| "exec (EnrollStudent now cid u) s = enrollStudent now cid u s"
| "exec (GenerateStudentCode now code nm) s = snd (generateStudentCode now code nm s)"
| "exec (CreateStudentAndEnroll now now' code cid nm) s =
     snd (createStudentAndEnroll now now' code cid nm s)"

inductive reachable :: "MockState \<Rightarrow> bool" where
  start: "reachable (initialState created1 created2)"
| step: "reachable s \<Longrightarrow> reachable (exec cmd s)"

text \<open>
  Awaiting one in-memory call after another: a throw ends the run.
\<close>

definition mock_then ::
  "js_error + MockState \<Rightarrow> (MockState \<Rightarrow> js_error + MockState) \<Rightarrow> js_error + MockState" where
  "mock_then r f = (case r of Inl e \<Rightarrow> Inl e | Inr s \<Rightarrow> f s)"

text \<open>The liveness flag of class \<open>cid\<close> agrees with the presence of its session.\<close>

definition live_consistent :: "MockState \<Rightarrow> string \<Rightarrow> bool" where
  "live_consistent s cid =
     ((LIVE_SESSIONS s cid \<noteq> None) =
      (case getClass s cid of None \<Rightarrow> False | Some cls \<Rightarrow> c_isLive cls = Some True))"

text \<open>
  Every class id begins with \<open>class-\<close>, and every inherited property is one of the
  standard ones or \<open>mode\<close>; so no class id names an inherited property.
\<close>

definition class_ids_made :: "MockState \<Rightarrow> bool" where
  "class_ids_made s = list_all (\<lambda>c. take 6 (c_id c) = ''class-'') (classes s)"

definition inherited_names_known :: "MockState \<Rightarrow> bool" where
  "inherited_names_known s =
     (dom (Object_prototype s) \<subseteq> insert ''mode'' (dom standard_Object_prototype))"

text \<open>Neither membership array of a session holds an id twice.\<close>

definition no_duplicates :: "'a LiveSessionState_scheme \<Rightarrow> bool" where
  "no_duplicates sess = (distinct (raisedHands sess) \<and> distinct (activeSpeakers sess))"

section \<open>Runs of the Firestore back end\<close>

text \<open>Awaiting one call after another: a rejection ends the run.\<close>

definition fb_then ::
  "fs_error + FbState \<Rightarrow> (FbState \<Rightarrow> fs_error + FbState) \<Rightarrow> fs_error + FbState" where
  "fb_then r f = (case r of Inl e \<Rightarrow> Inl e | Inr t \<Rightarrow> f t)"

text \<open>The two membership collections of a session read as sets, as the data model has them.\<close>

definition membership :: "'a LiveSessionState_scheme \<Rightarrow> string set \<times> string set" where
  "membership sess = (set (raisedHands sess), set (activeSpeakers sess))"

text \<open>
  The membership sets a subscriber of class \<open>cid\<close> sees after a run of calls, or the
  rejection the run ended with.
\<close>

definition fb_membership_after ::
  "fs_error + FbState \<Rightarrow> string \<Rightarrow> fs_error + (string set \<times> string set) option" where
  "fb_membership_after r cid =
     (case r of
        Inl e \<Rightarrow> Inl e
      | Inr t \<Rightarrow> map_sum (\<lambda>e. e) (map_option membership) (fb_subscribeToSession t cid))"

text \<open>
  The profile a student id refers to: the document, when the id makes a reference and
  the document exists.
\<close>

definition fb_profile :: "FbState \<Rightarrow> string \<Rightarrow> FbUser option" where
  "fb_profile t userId =
     (case fb_getUserById t userId of Inl e \<Rightarrow> None | Inr u \<Rightarrow> u)"

section \<open>Comparing two versions of a session record\<close>




section \<open>Example stores\<close>

definition run :: "command list \<Rightarrow> MockState \<Rightarrow> MockState" where
  "run cmds s = fold exec cmds s"

text \<open>
  An in-memory store after a short run: one student created and enrolled in class-1,
  one enrolment whose student id has no profile, class-1 live, the student's hand up and
  another id admitted as speaker.
\<close>

definition mock_sample :: MockState where
  "mock_sample =
     run [CreateStudentAndEnroll 1700000000001 1700000000001 ''K3J9XQ2A'' ''class-1'' ''Ada'',
          EnrollStudent 1700000000002 ''class-1'' ''student-0'',
          SetClassLiveStatus ''class-1'' True,
          RaiseHand ''class-1'' ''student-1700000000001'',
          AllowSpeaker ''class-1'' ''student-5'']
       (initialState ''2024-01-01T00:00:00.000Z'' ''2024-01-01T00:00:00.001Z'')"

text \<open>A Firestore store with one live class, two raised hands and one speaker.\<close>

definition fb_sample :: FbState where
  "fb_sample =
     \<lparr>fb_users =
        [''s-7'' \<mapsto> \<lparr>u_id = ''s-7'', u_role = STUDENT, u_name = ''Ada'', u_email = None,
                      u_student_code = Some ''K3J9XQ2A'', u_avatar_url = None,
                      u_created_at = None\<rparr>],
      fb_classes =
        [''c-1'' \<mapsto> \<lparr>fc_id = ''c-1'', fc_teacher_id = ''t-1'', fc_title = ''Maths'',
                      fc_description = ''Algebra'', fc_created_at = ''2024-01-01T00:00:00.000Z'',
                      fc_isLive = True, fc_join_code = Some ''AB12CD''\<rparr>],
      fb_enrollments =
        [\<lparr>e_id = ''e-1'', e_class_id = ''c-1'', e_student_id = ''s-7'',
          e_enrolled_at = ''2024-01-02T00:00:00.000Z''\<rparr>,
         \<lparr>e_id = ''e-2'', e_class_id = ''c-1'', e_student_id = ''s-0'',
          e_enrolled_at = ''2024-01-02T00:00:00.000Z''\<rparr>],
      fb_sessions =
        [''c-1'' \<mapsto> \<lparr>classId = ''c-1'', isLive = True, mode = SCREEN,
                      raisedHands = [''s-7'', ''s-8''], activeSpeakers = [''s-9''],
                      started_at = 1700000000000\<rparr>]\<rparr>"

text \<open>
  A Firestore run from an empty store: a class is created and goes live, then the same
  student is admitted as speaker twice.
\<close>

definition fb_double_admit :: "fs_error + FbState" where
  "fb_double_admit =
     fb_then
       (fb_then
          (fb_then
             (map_sum (\<lambda>e. e) snd
                (fb_createClass ''c-1'' ''2024-01-01T00:00:00.000Z'' ''AB12CD'' ''t-1''
                   ''Maths'' ''Algebra'' fb_empty))
             (fb_setClassLiveStatus ''c-1'' True 1700000000000))
          (fb_allowSpeaker ''c-1'' ''s-7''))
       (fb_allowSpeaker ''c-1'' ''s-7'')"

text \<open>
  The Firestore store above with one more enrolment in the class, written with the empty
  string as student id.
\<close>

definition fb_sample_empty_student :: FbState where
  "fb_sample_empty_student =
     fb_sample\<lparr>fb_enrollments := fb_enrollments fb_sample @
       [\<lparr>e_id = ''e-3'', e_class_id = ''c-1'', e_student_id = [],
         e_enrolled_at = ''2024-01-03T00:00:00.000Z''\<rparr>]\<rparr>"

section \<open>Facts about the helpers\<close>

lemma find_snoc:
  "find P (xs @ [y]) =
     (case find P xs of None \<Rightarrow> (if P y then Some y else None) | Some x \<Rightarrow> Some x)"
  by (induction xs) auto

lemma find_update_first_other:
  "(\<And>x. c_id (f x) = c_id x) \<Longrightarrow> k \<noteq> cid \<Longrightarrow>
   find (\<lambda>c. c_id c = k) (update_first (\<lambda>c. c_id c = cid) f xs) = find (\<lambda>c. c_id c = k) xs"
  by (induction xs) auto

lemma find_update_first_same:
  "(\<And>x. c_id (f x) = c_id x) \<Longrightarrow>
   find (\<lambda>c. c_id c = cid) (update_first (\<lambda>c. c_id c = cid) f xs) =
   map_option f (find (\<lambda>c. c_id c = cid) xs)"
  by (induction xs) auto

lemma update_first_twice:
  "(\<And>x. P (f x) = P x) \<Longrightarrow> (\<And>x. f (f x) = f x) \<Longrightarrow>
   update_first P f (update_first P f xs) = update_first P f xs"
  by (induction xs) auto

lemma list_all_update_first:
  "list_all Q xs \<Longrightarrow> (\<And>x. Q x \<Longrightarrow> Q (f x)) \<Longrightarrow> list_all Q (update_first P f xs)"
  by (induction xs) auto

lemma find_Some_list_all: "find P xs = Some x \<Longrightarrow> list_all Q xs \<Longrightarrow> Q x"
  by (induction xs) (auto split: if_splits)

lemma find_Some_P: "find P xs = Some x \<Longrightarrow> P x"
  by (induction xs) (auto split: if_splits)

lemmas session_ops_defs =
  updateStreamMode_def raiseHand_def lowerHand_def allowSpeaker_def muteSpeaker_def
  session_property_def store_after_def

lemmas session_splits =
  option.splits session_value.splits inherited_value.splits

section \<open>Facts about runs of the in-memory back end\<close>

lemma live_consistent_exec:
  assumes "\<forall>c. live_consistent s c"
  shows "live_consistent (exec cmd s) c"
proof (cases cmd)
  case (CreateClass now created teacherId title description)
  show ?thesis
    using assms[rule_format, of c] unfolding CreateClass
    by (auto simp: live_consistent_def createClass_def getClass_def Let_def find_snoc
          split: option.splits)
next
  case (SetClassLiveStatus cid live)
  show ?thesis
  proof (cases "c = cid")
    case True
    then show ?thesis
      using assms[rule_format, of c] unfolding SetClassLiveStatus
      by (auto simp: live_consistent_def setClassLiveStatus_def getClass_def Let_def
            find_update_first_same split: option.splits)
  next
    case False
    then show ?thesis
      using assms[rule_format, of c] unfolding SetClassLiveStatus
      by (auto simp: live_consistent_def setClassLiveStatus_def getClass_def Let_def
            find_update_first_other split: option.splits)
  qed
qed (use assms[rule_format, of c] in
      \<open>auto simp: live_consistent_def getClass_def session_ops_defs enrollStudent_def
         generateStudentCode_def createStudentAndEnroll_def Let_def split: session_splits\<close>)

lemma live_consistent_init: "live_consistent (initialState created1 created2) c"
  by (simp add: live_consistent_def initialState_def getClass_def INITIAL_CLASSES_def)

lemma reachable_live_consistent: "reachable s \<Longrightarrow> live_consistent s c"
proof (induction arbitrary: c rule: reachable.induct)
  case (start created1 created2)
  show ?case by (rule live_consistent_init)
next
  case (step s cmd)
  then show ?case by (intro live_consistent_exec) simp
qed

lemma class_ids_made_exec: "class_ids_made s \<Longrightarrow> class_ids_made (exec cmd s)"
proof (cases cmd)
  case (SetClassLiveStatus cid live)
  assume "class_ids_made s"
  then have "list_all (\<lambda>c. take 6 (c_id c) = ''class-'')
               (update_first (\<lambda>c. c_id c = cid) (\<lambda>c. c\<lparr>c_isLive := Some live\<rparr>) (classes s))"
    unfolding class_ids_made_def by (rule list_all_update_first) simp
  then show ?thesis
    using \<open>class_ids_made s\<close> unfolding SetClassLiveStatus
    by (cases live)
       (simp_all add: class_ids_made_def setClassLiveStatus_def Let_def split: option.splits)
qed (auto simp: class_ids_made_def createClass_def session_ops_defs enrollStudent_def
       generateStudentCode_def createStudentAndEnroll_def Let_def split: session_splits)

lemma inherited_names_known_exec:
  "inherited_names_known s \<Longrightarrow> inherited_names_known (exec cmd s)"
  by (cases cmd)
     (auto simp: inherited_names_known_def createClass_def setClassLiveStatus_def
        session_ops_defs enrollStudent_def generateStudentCode_def createStudentAndEnroll_def
        Let_def split: session_splits)

lemma reachable_names:
  "reachable s \<Longrightarrow> class_ids_made s \<and> inherited_names_known s"
proof (induction rule: reachable.induct)
  case (start created1 created2)
  show ?case
    by (auto simp: class_ids_made_def inherited_names_known_def initialState_def
          INITIAL_CLASSES_def)
next
  case (step s cmd)
  then show ?case by (simp add: class_ids_made_exec inherited_names_known_exec)
qed

lemma class_id_not_inherited:
  assumes "reachable s" and "getClass s cid = Some cls"
  shows "Object_prototype s cid = None"
proof -
  from reachable_names [OF assms(1)]
  have made: "list_all (\<lambda>c. take 6 (c_id c) = ''class-'') (classes s)"
    and known: "dom (Object_prototype s) \<subseteq> insert ''mode'' (dom standard_Object_prototype)"
    by (simp_all add: class_ids_made_def inherited_names_known_def)
  from assms(2) have found: "find (\<lambda>c. c_id c = cid) (classes s) = Some cls"
    by (simp add: getClass_def)
  from found made have "take 6 (c_id cls) = ''class-''"
    by (rule find_Some_list_all)
  moreover from found have "c_id cls = cid"
    by (rule find_Some_P)
  ultimately have prefix: "take 6 cid = ''class-''" by simp
  then have "cid \<notin> insert ''mode'' (dom standard_Object_prototype)"
    by (auto simp: standard_Object_prototype_def dom_map_of_conv_image_fst)
  with known show ?thesis by blast
qed

section \<open>Facts about document references\<close>

lemma split_slash_plain: "CHR ''/'' \<notin> set i \<Longrightarrow> split_slash i = [i]"
  by (induction i) auto

lemma has_double_slash_plain: "CHR ''/'' \<notin> set i \<Longrightarrow> \<not> has_double_slash i"
  by (induction i rule: has_double_slash.induct) auto

lemma doc_plain: "CHR ''/'' \<notin> set i \<Longrightarrow> i \<noteq> [] \<Longrightarrow> doc i = Inr i"
  by (simp add: doc_def split_slash_plain has_double_slash_plain)

lemma doc_empty: "doc [] = Inl InvalidArgument"
  by (simp add: doc_def)

lemma doc_error: "doc i = Inl e \<Longrightarrow> e = InvalidArgument"
  by (auto simp: doc_def Let_def split: if_splits)

section \<open>Facts about the example stores\<close>

lemma digit_chars:
  "digit_char 0 = CHR ''0''" "digit_char 1 = CHR ''1''" "digit_char 2 = CHR ''2''"
  "digit_char 3 = CHR ''3''" "digit_char 4 = CHR ''4''" "digit_char 5 = CHR ''5''"
  "digit_char 6 = CHR ''6''" "digit_char 7 = CHR ''7''" "digit_char 8 = CHR ''8''"
  "digit_char 9 = CHR ''9''" "digit_char (Suc 0) = CHR ''1''"
  by code_simp+

lemma student_id_sample: "string_of_nat 1700000000001 = ''1700000000001''"
  by (simp add: string_of_nat.simps digit_chars)

lemma enroll_id_sample: "string_of_nat 1700000000002 = ''1700000000002''"
  by (simp add: string_of_nat.simps digit_chars)

lemmas mock_defs =
  mock_sample_def run_def createStudentAndEnroll_def enrollStudent_def setClassLiveStatus_def
  session_ops_defs initialState_def INITIAL_CLASSES_def INITIAL_ENROLLMENTS_def Let_def
  student_id_sample enroll_id_sample

lemma reachable_run: "reachable s \<Longrightarrow> reachable (run cmds s)"
  unfolding run_def by (induction cmds arbitrary: s) (auto intro: reachable.step)

lemma reachable_mock_sample: "reachable mock_sample"
  unfolding mock_sample_def by (intro reachable_run reachable.start)

lemma mock_sample_session:
  "LIVE_SESSIONS mock_sample ''class-1'' =
     Some \<lparr>classId = ''class-1'', isLive = True, mode = CAMERA,
           raisedHands = [''student-1700000000001''], activeSpeakers = [''student-5'']\<rparr>"
  by (simp add: mock_defs)

lemma mock_sample_read:
  "getLiveSessionState mock_sample ''class-1'' =
     Some (Session \<lparr>classId = ''class-1'', isLive = True, mode = CAMERA,
             raisedHands = [''student-1700000000001''], activeSpeakers = [''student-5'']\<rparr>)"
  by (simp add: getLiveSessionState_def session_property_def mock_sample_session)

lemma mock_sample_prototype: "Object_prototype mock_sample = standard_Object_prototype"
  by (simp add: mock_defs)

lemma mock_sample_no_session2: "LIVE_SESSIONS mock_sample ''class-2'' = None"
  by (simp add: mock_defs)

lemma mock_sample_read2: "getLiveSessionState mock_sample ''class-2'' = None"
  by (simp add: getLiveSessionState_def session_property_def mock_sample_no_session2
        mock_sample_prototype standard_Object_prototype_def)

lemma mock_sample_read_constructor:
  "getLiveSessionState mock_sample ''constructor'' = Some (Inherited BuiltinFunction)"
  by (simp add: getLiveSessionState_def mock_defs standard_Object_prototype_def)

lemma mock_sample_users:
  "users mock_sample =
     INITIAL_USERS @
     [\<lparr>u_id = ''student-1700000000001'', u_role = STUDENT, u_name = ''Ada'', u_email = None,
       u_student_code = Some ''K3J9XQ2A'', u_avatar_url = None\<rparr>]"
  by (simp add: mock_defs)

lemma mock_sample_enrollments:
  "enrollments mock_sample =
     [\<lparr>e_id = ''enroll-1700000000001'', e_class_id = ''class-1'',
       e_student_id = ''student-1700000000001''\<rparr>,
      \<lparr>e_id = ''enroll-1700000000002'', e_class_id = ''class-1'', e_student_id = ''student-0''\<rparr>]"
  by (simp add: mock_defs)

lemma mock_sample_class1:
  "getClass mock_sample ''class-1'' =
     Some \<lparr>c_id = ''class-1'', c_teacher_id = MOCK_TEACHER_ID, c_title = ''Advanced Mathematics'',
       c_description = ''Calculus and Linear Algebra'', c_created_at = ''2024-01-01T00:00:00.000Z'',
       c_isLive = Some True\<rparr>"
  by (simp add: mock_defs getClass_def)

lemma mock_sample_class2:
  "getClass mock_sample ''class-2'' =
     Some \<lparr>c_id = ''class-2'', c_teacher_id = MOCK_TEACHER_ID, c_title = ''Physics 101'',
       c_description = ''Mechanics and Thermodynamics'',
       c_created_at = ''2024-01-01T00:00:00.001Z'', c_isLive = Some False\<rparr>"
  by (simp add: mock_defs getClass_def)

lemma mock_sample_no_class: "getClass mock_sample ''class-404'' = None"
  by (simp add: mock_defs getClass_def)

lemma doc_c1: "doc ''c-1'' = Inr ''c-1''"
  by (simp add: doc_plain)

lemma doc_c2: "doc ''c-2'' = Inr ''c-2''"
  by (simp add: doc_plain)

lemma doc_s7: "doc ''s-7'' = Inr ''s-7''"
  by (simp add: doc_plain)

lemma doc_s0: "doc ''s-0'' = Inr ''s-0''"
  by (simp add: doc_plain)

lemma fb_sample_session:
  "fb_sessions fb_sample ''c-1'' =
     Some \<lparr>classId = ''c-1'', isLive = True, mode = SCREEN,
           raisedHands = [''s-7'', ''s-8''], activeSpeakers = [''s-9''],
           started_at = 1700000000000\<rparr>"
  by (simp add: fb_sample_def)

lemma fb_sample_read:
  "fb_subscribeToSession fb_sample ''c-1'' =
     Inr (Some \<lparr>classId = ''c-1'', isLive = True, mode = SCREEN,
                raisedHands = [''s-7'', ''s-8''], activeSpeakers = [''s-9''],
                started_at = 1700000000000\<rparr>)"
  by (simp add: fb_subscribeToSession_def getDoc_def doc_c1 fb_sample_session)

lemma fb_sample_read2: "fb_subscribeToSession fb_sample ''c-2'' = Inr None"
  by (simp add: fb_subscribeToSession_def getDoc_def doc_c2 fb_sample_def)

lemma fb_sample_class:
  "fb_classes fb_sample ''c-1'' =
     Some \<lparr>fc_id = ''c-1'', fc_teacher_id = ''t-1'', fc_title = ''Maths'',
           fc_description = ''Algebra'', fc_created_at = ''2024-01-01T00:00:00.000Z'',
           fc_isLive = True, fc_join_code = Some ''AB12CD''\<rparr>"
  by (simp add: fb_sample_def)

lemma fb_sample_no_class2: "fb_classes fb_sample ''c-2'' = None"
  by (simp add: fb_sample_def)

section \<open>A session record exists exactly for the live classes\<close>

text \<open>
  C5. In the in-memory back end every state-changing operation (creating a class,
  starting and ending a session, every session mutation, enrolment and account creation)
  preserves the invariant that a class id has a session record if and only if the class
  record found for that id has \<open>isLive = true\<close>: there is no session without a live
  class and no live class without a session.
\<close>

theorem session_iff_isLive_preserved:
  assumes "\<forall>c. live_consistent s c"
  shows "\<forall>c. live_consistent (exec cmd s) c"
  using assms live_consistent_exec by blast

theorem session_iff_isLive_preserved_witness:
  "(\<forall>c. live_consistent
          (initialState ''2024-01-01T00:00:00.000Z'' ''2024-01-01T00:00:00.001Z'') c) \<and>
   (\<forall>c. live_consistent
          (exec (SetClassLiveStatus ''class-1'' True)
             (initialState ''2024-01-01T00:00:00.000Z'' ''2024-01-01T00:00:00.001Z'')) c)"
proof -
  have h: "\<forall>c. live_consistent
                (initialState ''2024-01-01T00:00:00.000Z'' ''2024-01-01T00:00:00.001Z'') c"
    by (simp add: live_consistent_def initialState_def getClass_def INITIAL_CLASSES_def)
  from session_iff_isLive_preserved [OF h, of "SetClassLiveStatus ''class-1'' True"] h
  show ?thesis by simp
qed

section \<open>Admitting a speaker\<close>

lemma allowSpeaker_mock:
  assumes "getLiveSessionState s cid = Some (Session sess)"
  shows "\<exists>s' sess'. allowSpeaker cid u s = Inr s' \<and>
                    getLiveSessionState s' cid = Some (Session sess') \<and>
                    u \<in> set (activeSpeakers sess') \<and> u \<notin> set (raisedHands sess')"
  using assms
  by (auto simp: getLiveSessionState_def session_ops_defs Let_def split: session_splits)

lemma allowSpeaker_fb:
  assumes "fb_subscribeToSession t cid = Inr (Some sess)"
  shows "\<exists>t' sess'. fb_allowSpeaker cid u t = Inr t' \<and>
                    fb_subscribeToSession t' cid = Inr (Some sess') \<and>
                    u \<in> set (activeSpeakers sess') \<and> u \<notin> set (raisedHands sess')"
  using assms
  by (auto simp: fb_subscribeToSession_def fb_allowSpeaker_def updateSession_def updateDoc_def
        getDoc_def Let_def split: sum.splits)

text \<open>
  C1. For a class with a live session, right after \<open>allowSpeaker\<close> for a user the
  session lists the user among the active speakers and not among the raised hands,
  whatever the two collections held before. Both back ends make the two changes within
  the one call: the in-memory one runs \<open>lowerHand\<close> before it returns, the Firestore
  one writes both fields in a single update.
\<close>

theorem allowSpeaker_admits:
  "(getLiveSessionState s cid = Some (Session sess) \<longrightarrow>
      (\<exists>s' sess'. allowSpeaker cid u s = Inr s' \<and>
               getLiveSessionState s' cid = Some (Session sess') \<and>
               u \<in> set (activeSpeakers sess') \<and> u \<notin> set (raisedHands sess'))) \<and>
   (fb_subscribeToSession t fcid = Inr (Some fsess) \<longrightarrow>
      (\<exists>t' fsess'. fb_allowSpeaker fcid fu t = Inr t' \<and>
               fb_subscribeToSession t' fcid = Inr (Some fsess') \<and>
               fu \<in> set (activeSpeakers fsess') \<and> fu \<notin> set (raisedHands fsess')))"
  by (rule conjI; rule impI) (erule allowSpeaker_mock, erule allowSpeaker_fb)

theorem allowSpeaker_admits_witness:
  "(\<exists>s' sess'. allowSpeaker ''class-1'' ''student-1700000000001'' mock_sample = Inr s' \<and>
            getLiveSessionState s' ''class-1'' = Some (Session sess') \<and>
            ''student-1700000000001'' \<in> set (activeSpeakers sess') \<and>
            ''student-1700000000001'' \<notin> set (raisedHands sess')) \<and>
   (\<exists>t' fsess'. fb_allowSpeaker ''c-1'' ''s-7'' fb_sample = Inr t' \<and>
            fb_subscribeToSession t' ''c-1'' = Inr (Some fsess') \<and>
            ''s-7'' \<in> set (activeSpeakers fsess') \<and> ''s-7'' \<notin> set (raisedHands fsess'))"
proof -
  note inst = allowSpeaker_admits [where s = mock_sample and cid = "''class-1''"
      and u = "''student-1700000000001''" and t = fb_sample and fcid = "''c-1''"
      and fu = "''s-7''"]
  from inst [THEN conjunct1, rule_format, OF mock_sample_read]
       inst [THEN conjunct2, rule_format, OF fb_sample_read]
  show ?thesis by (rule conjI)
qed

section \<open>Starting a session\<close>

text \<open>
  C2, as stated: for every class id and any store, \<open>setClassLiveStatus\<close> with
  \<open>isLive = true\<close> followed by \<open>getLiveSessionState\<close> returns a fresh session. It
  fails for a class id without a class record: nothing is created.
\<close>

theorem startSession_without_class_counterexample:
  "getLiveSessionState
     (setClassLiveStatus ''class-404'' True
        (initialState ''2024-01-01T00:00:00.000Z'' ''2024-01-01T00:00:00.001Z''))
     ''class-404'' = None"
  by (simp add: getLiveSessionState_def session_property_def setClassLiveStatus_def
        initialState_def INITIAL_CLASSES_def standard_Object_prototype_def)

lemma setClassLiveStatus_fresh:
  assumes "getClass s cid = Some cls"
  shows "getLiveSessionState (setClassLiveStatus cid True s) cid =
           Some (Session \<lparr>classId = cid, isLive = True, mode = CAMERA,
                          raisedHands = [], activeSpeakers = []\<rparr>)"
  using assms
  by (simp add: getLiveSessionState_def session_property_def setClassLiveStatus_def getClass_def
        Let_def)

lemma fb_setClassLiveStatus_fresh:
  assumes "doc cid = Inr k" and "fb_classes t k = Some cls"
  shows "\<exists>t'. fb_setClassLiveStatus cid True now t = Inr t' \<and>
              fb_subscribeToSession t' cid =
                Inr (Some \<lparr>classId = cid, isLive = True, mode = CAMERA,
                           raisedHands = [], activeSpeakers = [], started_at = now\<rparr>)"
  using assms
  by (simp add: fb_setClassLiveStatus_def fb_subscribeToSession_def updateDoc_def setDoc_def
        getDoc_def Let_def)

text \<open>
  C2, amended. For every class id that has a class record, and any prior store,
  \<open>setClassLiveStatus\<close> with \<open>isLive = true\<close> followed by a read of the session
  returns a record with mode CAMERA and both membership collections empty (in the
  Firestore back end, with \<open>started_at\<close> the time of the call); whatever an earlier
  session of that class held is gone.
\<close>

theorem startSession_fresh:
  "(getClass s cid = Some cls \<longrightarrow>
      getLiveSessionState (setClassLiveStatus cid True s) cid =
        Some (Session \<lparr>classId = cid, isLive = True, mode = CAMERA,
                       raisedHands = [], activeSpeakers = []\<rparr>)) \<and>
   (doc fcid = Inr k \<and> fb_classes t k = Some fcls \<longrightarrow>
      (\<exists>t'. fb_setClassLiveStatus fcid True now t = Inr t' \<and>
            fb_subscribeToSession t' fcid =
              Inr (Some \<lparr>classId = fcid, isLive = True, mode = CAMERA,
                         raisedHands = [], activeSpeakers = [], started_at = now\<rparr>)))"
  by (rule conjI; rule impI)
     (erule setClassLiveStatus_fresh, erule conjE, erule (1) fb_setClassLiveStatus_fresh)

theorem startSession_fresh_witness:
  "getLiveSessionState (setClassLiveStatus ''class-1'' True mock_sample) ''class-1'' =
     Some (Session \<lparr>classId = ''class-1'', isLive = True, mode = CAMERA,
                    raisedHands = [], activeSpeakers = []\<rparr>) \<and>
   (\<exists>t'. fb_setClassLiveStatus ''c-1'' True 1700000360000 fb_sample = Inr t' \<and>
         fb_subscribeToSession t' ''c-1'' =
           Inr (Some \<lparr>classId = ''c-1'', isLive = True, mode = CAMERA,
                      raisedHands = [], activeSpeakers = [], started_at = 1700000360000\<rparr>))"
proof -
  note inst = startSession_fresh [where s = mock_sample and cid = "''class-1''"
      and t = fb_sample and fcid = "''c-1''" and now = 1700000360000]
  from inst [THEN conjunct1, rule_format, OF mock_sample_class1]
       inst [THEN conjunct2, rule_format, OF conjI [OF doc_c1 fb_sample_class]]
  show ?thesis by (rule conjI)
qed

section \<open>Ending a session\<close>

text \<open>
  C3, as stated: for every class id and any prior state, \<open>setClassLiveStatus\<close> with
  \<open>isLive = false\<close> leaves no session and is a no-op rather than an error when the
  session has already ended. In the Firestore back end the call on a class id without a
  class document is rejected, although no session is there.
\<close>

theorem fb_endSession_without_class_counterexample:
  "fb_subscribeToSession fb_empty ''c-404'' = Inr None \<and>
   fb_setClassLiveStatus ''c-404'' False 1700000360000 fb_empty = Inl NotFound"
  by (simp add: fb_subscribeToSession_def fb_setClassLiveStatus_def updateDoc_def getDoc_def
        fb_empty_def doc_plain)

lemma end_absent_mock:
  assumes "getClass s cid = Some cls" and "Object_prototype s cid = None"
  shows "getLiveSessionState (setClassLiveStatus cid False s) cid = None"
  using assms
  by (simp add: getLiveSessionState_def session_property_def setClassLiveStatus_def getClass_def
        Let_def)

lemma end_absent_reachable:
  assumes "reachable s" and "getClass s cid = Some cls"
  shows "getLiveSessionState (setClassLiveStatus cid False s) cid = None"
  using assms(2) class_id_not_inherited [OF assms] by (rule end_absent_mock)

lemma end_twice_mock:
  "setClassLiveStatus cid False (setClassLiveStatus cid False s) =
     setClassLiveStatus cid False s"
proof (cases "find (\<lambda>c. c_id c = cid) (classes s)")
  case None
  then show ?thesis by (simp add: setClassLiveStatus_def)
next
  case (Some cls)
  have again: "find (\<lambda>c. c_id c = cid)
                 (update_first (\<lambda>c. c_id c = cid) (\<lambda>c. c\<lparr>c_isLive := Some False\<rparr>)
                    (classes s)) = Some (cls\<lparr>c_isLive := Some False\<rparr>)"
    using Some by (simp add: find_update_first_same)
  have twice: "update_first (\<lambda>c. c_id c = cid) (\<lambda>c. c\<lparr>c_isLive := Some False\<rparr>)
                 (update_first (\<lambda>c. c_id c = cid) (\<lambda>c. c\<lparr>c_isLive := Some False\<rparr>)
                    (classes s)) =
               update_first (\<lambda>c. c_id c = cid) (\<lambda>c. c\<lparr>c_isLive := Some False\<rparr>) (classes s)"
    by (rule update_first_twice) simp_all
  show ?thesis
    using Some again twice by (simp add: setClassLiveStatus_def Let_def)
qed

lemma fb_end_absent:
  assumes "doc cid = Inr k" and "fb_classes t k = Some cls"
  shows "\<exists>t'. fb_setClassLiveStatus cid False now t = Inr t' \<and>
              fb_subscribeToSession t' cid = Inr None \<and>
              fb_setClassLiveStatus cid False now' t' = Inr t'"
  using assms
  by (simp add: fb_setClassLiveStatus_def fb_subscribeToSession_def updateDoc_def deleteDoc_def
        getDoc_def Let_def)

text \<open>
  C3, amended. For every class id that has a class record, and any prior state,
  \<open>setClassLiveStatus\<close> with \<open>isLive = false\<close> followed by a read of the session
  returns absent, and ending again changes nothing and is no error. In the in-memory
  back end this needs the class id not to name a property the session object inherits,
  which holds for every class record the code can make; there a second call never
  changes the store, whatever the class id.
\<close>

theorem endSession_absent:
  "(getClass s cid = Some cls \<and> Object_prototype s cid = None \<longrightarrow>
      getLiveSessionState (setClassLiveStatus cid False s) cid = None) \<and>
   (reachable s \<and> getClass s cid = Some cls \<longrightarrow>
      getLiveSessionState (setClassLiveStatus cid False s) cid = None) \<and>
   setClassLiveStatus cid False (setClassLiveStatus cid False s) =
     setClassLiveStatus cid False s \<and>
   (doc fcid = Inr k \<and> fb_classes t k = Some fcls \<longrightarrow>
      (\<exists>t'. fb_setClassLiveStatus fcid False now t = Inr t' \<and>
            fb_subscribeToSession t' fcid = Inr None \<and>
            fb_setClassLiveStatus fcid False now' t' = Inr t'))"
proof (intro conjI impI)
  show "getLiveSessionState (setClassLiveStatus cid False s) cid = None"
    if "getClass s cid = Some cls \<and> Object_prototype s cid = None"
    using that by (auto intro: end_absent_mock)
  show "getLiveSessionState (setClassLiveStatus cid False s) cid = None"
    if "reachable s \<and> getClass s cid = Some cls"
    using that by (auto intro: end_absent_reachable)
  show "setClassLiveStatus cid False (setClassLiveStatus cid False s) =
          setClassLiveStatus cid False s"
    by (rule end_twice_mock)
  show "\<exists>t'. fb_setClassLiveStatus fcid False now t = Inr t' \<and>
             fb_subscribeToSession t' fcid = Inr None \<and>
             fb_setClassLiveStatus fcid False now' t' = Inr t'"
    if "doc fcid = Inr k \<and> fb_classes t k = Some fcls"
    using that by (auto intro: fb_end_absent)
qed

theorem endSession_absent_witness:
  "reachable mock_sample \<and>
   getLiveSessionState mock_sample ''class-1'' =
     Some (Session \<lparr>classId = ''class-1'', isLive = True, mode = CAMERA,
             raisedHands = [''student-1700000000001''], activeSpeakers = [''student-5'']\<rparr>) \<and>
   getLiveSessionState (setClassLiveStatus ''class-1'' False mock_sample) ''class-1'' = None \<and>
   getLiveSessionState (setClassLiveStatus ''class-2'' False mock_sample) ''class-2'' = None \<and>
   (\<exists>t'. fb_setClassLiveStatus ''c-1'' False 1700000360000 fb_sample = Inr t' \<and>
         fb_subscribeToSession t' ''c-1'' = Inr None \<and>
         fb_setClassLiveStatus ''c-1'' False 1700000370000 t' = Inr t')"
proof -
  have h1: "getClass mock_sample ''class-1'' =
              Some \<lparr>c_id = ''class-1'', c_teacher_id = MOCK_TEACHER_ID,
                    c_title = ''Advanced Mathematics'',
                    c_description = ''Calculus and Linear Algebra'',
                    c_created_at = ''2024-01-01T00:00:00.000Z'', c_isLive = Some True\<rparr> \<and>
            Object_prototype mock_sample ''class-1'' = None"
    by (simp add: mock_sample_class1 mock_sample_prototype standard_Object_prototype_def)
  note h2 = conjI [OF doc_c1 fb_sample_class]
  note inst = endSession_absent [where s = mock_sample and cid = "''class-1''"
      and t = fb_sample and fcid = "''c-1''" and now = 1700000360000
      and now' = 1700000370000]
  note r1 = inst [THEN conjunct1, rule_format, OF h1]
  note inst2 = endSession_absent [where s = mock_sample and cid = "''class-2''"]
  note r1' = inst2 [THEN conjunct2, THEN conjunct1, rule_format,
      OF conjI [OF reachable_mock_sample mock_sample_class2]]
  note r2 = inst [THEN conjunct2, THEN conjunct2, THEN conjunct2, rule_format, OF h2]
  show ?thesis
    by (rule conjI [OF reachable_mock_sample
          conjI [OF mock_sample_read conjI [OF r1 conjI [OF r1' r2]]]])
qed

section \<open>Repeating a membership operation\<close>

lemma raiseHand_twice: "mock_then (raiseHand cid u s) (raiseHand cid u) = raiseHand cid u s"
  by (auto simp: mock_then_def raiseHand_def session_property_def split: session_splits)

lemma lowerHand_twice: "mock_then (lowerHand cid u s) (lowerHand cid u) = lowerHand cid u s"
  by (auto simp: mock_then_def lowerHand_def session_property_def split: session_splits)

lemma muteSpeaker_twice:
  "mock_then (muteSpeaker cid u s) (muteSpeaker cid u) = muteSpeaker cid u s"
  by (auto simp: mock_then_def muteSpeaker_def session_property_def split: session_splits)

lemma allowSpeaker_twice:
  "mock_then (allowSpeaker cid u s) (allowSpeaker cid u) = allowSpeaker cid u s"
  by (auto simp: mock_then_def allowSpeaker_def lowerHand_def session_property_def Let_def
        split: session_splits)

lemma fb_raiseHand_twice:
  "fb_then (fb_raiseHand cid u t) (fb_raiseHand cid u) = fb_raiseHand cid u t"
  by (auto simp: fb_then_def fb_raiseHand_def updateSession_def updateDoc_def getDoc_def
        Let_def split: sum.splits option.splits)

lemma fb_lowerHand_twice:
  "fb_then (fb_lowerHand cid u t) (fb_lowerHand cid u) = fb_lowerHand cid u t"
  by (auto simp: fb_then_def fb_lowerHand_def updateSession_def updateDoc_def getDoc_def
        Let_def split: sum.splits option.splits)

lemma fb_allowSpeaker_twice:
  "fb_membership_after (fb_then (fb_allowSpeaker cid u t) (fb_allowSpeaker cid u)) cid =
     fb_membership_after (fb_allowSpeaker cid u t) cid"
  by (auto simp: fb_membership_after_def fb_then_def fb_allowSpeaker_def
        fb_subscribeToSession_def updateSession_def updateDoc_def getDoc_def Let_def
        membership_def split: sum.splits option.splits)

lemma fb_allowSpeaker_twice_succeeds:
  "isl (fb_then (fb_allowSpeaker cid u t) (fb_allowSpeaker cid u)) = isl (doc cid)"
  by (auto simp: fb_then_def fb_allowSpeaker_def updateSession_def updateDoc_def getDoc_def
        Let_def split: sum.splits option.splits)

text \<open>
  C4. Calling \<open>raiseHand\<close> twice with the same arguments leaves the same raised hands
  as calling it once, and likewise for \<open>lowerHand\<close>, \<open>allowSpeaker\<close> and
  \<open>muteSpeaker\<close>. In the in-memory back end the outcome of the two calls, store
  included, is the outcome of the first; so it is for the Firestore \<open>raiseHand\<close> and
  \<open>lowerHand\<close>. For the Firestore \<open>allowSpeaker\<close> the two membership sets after the
  second call are those after the first, and the two calls are rejected only when the
  class id makes no document reference.
\<close>

theorem membership_ops_idempotent:
  "mock_then (raiseHand cid u s) (raiseHand cid u) = raiseHand cid u s \<and>
   mock_then (lowerHand cid u s) (lowerHand cid u) = lowerHand cid u s \<and>
   mock_then (allowSpeaker cid u s) (allowSpeaker cid u) = allowSpeaker cid u s \<and>
   mock_then (muteSpeaker cid u s) (muteSpeaker cid u) = muteSpeaker cid u s \<and>
   fb_then (fb_raiseHand cid u t) (fb_raiseHand cid u) = fb_raiseHand cid u t \<and>
   fb_then (fb_lowerHand cid u t) (fb_lowerHand cid u) = fb_lowerHand cid u t \<and>
   fb_membership_after (fb_then (fb_allowSpeaker cid u t) (fb_allowSpeaker cid u)) cid =
     fb_membership_after (fb_allowSpeaker cid u t) cid \<and>
   isl (fb_then (fb_allowSpeaker cid u t) (fb_allowSpeaker cid u)) = isl (doc cid)"
  by (intro conjI raiseHand_twice lowerHand_twice allowSpeaker_twice muteSpeaker_twice
        fb_raiseHand_twice fb_lowerHand_twice fb_allowSpeaker_twice
        fb_allowSpeaker_twice_succeeds)

section \<open>Duplicate ids in the membership arrays\<close>

text \<open>
  In the in-memory back end no reachable session holds an id twice in either array.
\<close>

lemma no_duplicates_exec:
  assumes "\<forall>c sess. LIVE_SESSIONS s c = Some sess \<longrightarrow> no_duplicates sess"
  shows "LIVE_SESSIONS (exec cmd s) c = Some sess \<Longrightarrow> no_duplicates sess"
  using assms
  by (cases cmd)
     (auto simp: no_duplicates_def createClass_def setClassLiveStatus_def session_ops_defs
        enrollStudent_def generateStudentCode_def createStudentAndEnroll_def Let_def
        split: session_splits if_splits)

lemma reachable_no_duplicates:
  "reachable s \<Longrightarrow> LIVE_SESSIONS s c = Some sess \<Longrightarrow> no_duplicates sess"
proof (induction arbitrary: c sess rule: reachable.induct)
  case (start created1 created2)
  then show ?case by (simp add: initialState_def)
next
  case (step s cmd)
  from step.IH have "\<forall>c sess. LIVE_SESSIONS s c = Some sess \<longrightarrow> no_duplicates sess"
    by blast
  then show ?case using step.prems by (rule no_duplicates_exec)
qed

text \<open>
  C6. The claim is that no run of membership operations after a fresh start puts a user
  id twice into \<open>raisedHands\<close> or \<open>activeSpeakers\<close>. The Firestore \<open>allowSpeaker\<close>
  appends the id without looking: admitting the same student twice after a fresh start
  leaves the id twice in \<open>activeSpeakers\<close>.
\<close>

theorem fb_allowSpeaker_twice_duplicates:
  "map_sum id
     (\<lambda>t. map_sum id (map_option activeSpeakers) (fb_subscribeToSession t ''c-1''))
     fb_double_admit =
   Inr (Inr (Some [''s-7'', ''s-7'']))"
  by (simp add: fb_double_admit_def fb_then_def fb_createClass_def fb_empty_def
        fb_setClassLiveStatus_def fb_allowSpeaker_def fb_subscribeToSession_def
        updateSession_def updateDoc_def setDoc_def getDoc_def doc_c1 Let_def)

section \<open>Operations on a class or session that does not exist\<close>

text \<open>
  C7, as stated: every mutation aimed at something that does not exist is a silent no-op,
  not an error. The Firestore \<open>updateStreamMode\<close> on a class without a session is
  rejected.
\<close>

theorem fb_updateStreamMode_missing_session_counterexample:
  "fb_updateStreamMode ''c-2'' SCREEN fb_sample = Inl NotFound"
  by (simp add: fb_updateStreamMode_def updateSession_def updateDoc_def doc_c2 fb_sample_def)

lemma missing_session_mock:
  assumes "getLiveSessionState s cid = None"
  shows "updateStreamMode cid m s = Inr s \<and> raiseHand cid u s = Inr s \<and>
         lowerHand cid u s = Inr s \<and> allowSpeaker cid u s = Inr s \<and>
         muteSpeaker cid u s = Inr s"
  using assms
  by (simp add: getLiveSessionState_def updateStreamMode_def raiseHand_def lowerHand_def
        allowSpeaker_def muteSpeaker_def)

lemma missing_session_fb:
  assumes "fb_subscribeToSession t cid = Inr None"
  shows "fb_raiseHand cid u t = Inr t \<and> fb_lowerHand cid u t = Inr t \<and>
         fb_allowSpeaker cid u t = Inr t \<and> fb_updateStreamMode cid m t = Inl NotFound"
  using assms
  by (auto simp: fb_subscribeToSession_def getDoc_def fb_raiseHand_def fb_lowerHand_def
        fb_allowSpeaker_def fb_updateStreamMode_def updateSession_def updateDoc_def
        split: sum.splits)

lemma missing_class_fb:
  assumes "doc cid = Inr k" and "fb_classes t k = None"
  shows "fb_setClassLiveStatus cid live now t = Inl NotFound"
  using assms by (simp add: fb_setClassLiveStatus_def updateDoc_def)

text \<open>
  Where the session read is not absent although no session is stored, the id names an
  inherited property and the in-memory membership operations throw; where the id makes
  no document reference, every Firestore operation is rejected before it reads or
  writes.
\<close>

lemma inherited_name_throws:
  assumes "getLiveSessionState s cid = Some (Inherited v)"
  shows "raiseHand cid u s = Inl TypeError \<and> lowerHand cid u s = Inl TypeError \<and>
         allowSpeaker cid u s = Inl TypeError \<and> muteSpeaker cid u s = Inl TypeError"
  using assms
  by (simp add: getLiveSessionState_def raiseHand_def lowerHand_def allowSpeaker_def
        muteSpeaker_def)

lemma no_reference_rejected:
  assumes "doc cid = Inl e"
  shows "fb_setClassLiveStatus cid live now t = Inl e \<and> fb_updateStreamMode cid m t = Inl e \<and>
         fb_raiseHand cid u t = Inl e \<and> fb_lowerHand cid u t = Inl e \<and>
         fb_allowSpeaker cid u t = Inl e \<and> fb_subscribeToSession t cid = Inl e"
  using assms
  by (simp add: fb_setClassLiveStatus_def fb_updateStreamMode_def fb_raiseHand_def
        fb_lowerHand_def fb_allowSpeaker_def fb_subscribeToSession_def)

text \<open>
  C7, amended. Aimed at a class id without a class record (\<open>setClassLiveStatus\<close>), or
  at a class id whose session read is absent (the session mutations), every operation
  leaves the store as it was, so a later session read returns what it returned before.
  The in-memory operations return normally, and so do the Firestore \<open>raiseHand\<close>,
  \<open>lowerHand\<close> and \<open>allowSpeaker\<close>; the Firestore \<open>setClassLiveStatus\<close> (on an id
  that makes a document reference) and \<open>updateStreamMode\<close> are rejected with not-found
  before anything is written.
\<close>

theorem missing_target_unchanged:
  "(getClass s cid = None \<longrightarrow> setClassLiveStatus cid live s = s) \<and>
   (getLiveSessionState s sid = None \<longrightarrow>
      updateStreamMode sid m s = Inr s \<and> raiseHand sid u s = Inr s \<and>
      lowerHand sid u s = Inr s \<and> allowSpeaker sid u s = Inr s \<and>
      muteSpeaker sid u s = Inr s) \<and>
   (fb_subscribeToSession t fsid = Inr None \<longrightarrow>
      fb_raiseHand fsid fu t = Inr t \<and> fb_lowerHand fsid fu t = Inr t \<and>
      fb_allowSpeaker fsid fu t = Inr t \<and> fb_updateStreamMode fsid m t = Inl NotFound) \<and>
   (doc fcid = Inr k \<and> fb_classes t k = None \<longrightarrow>
      fb_setClassLiveStatus fcid live now t = Inl NotFound)"
proof (rule conjI [OF _ conjI [OF _ conjI]]; rule impI)
  show "setClassLiveStatus cid live s = s" if "getClass s cid = None"
    using that by (simp add: getClass_def setClassLiveStatus_def)
  show "updateStreamMode sid m s = Inr s \<and> raiseHand sid u s = Inr s \<and>
        lowerHand sid u s = Inr s \<and> allowSpeaker sid u s = Inr s \<and>
        muteSpeaker sid u s = Inr s"
    if "getLiveSessionState s sid = None"
    using that by (rule missing_session_mock)
  show "fb_raiseHand fsid fu t = Inr t \<and> fb_lowerHand fsid fu t = Inr t \<and>
        fb_allowSpeaker fsid fu t = Inr t \<and> fb_updateStreamMode fsid m t = Inl NotFound"
    if "fb_subscribeToSession t fsid = Inr None"
    using that by (rule missing_session_fb)
  show "fb_setClassLiveStatus fcid live now t = Inl NotFound"
    if "doc fcid = Inr k \<and> fb_classes t k = None"
    using that by (auto intro: missing_class_fb)
qed

theorem missing_target_unchanged_witness:
  "setClassLiveStatus ''class-404'' True mock_sample = mock_sample \<and>
   (updateStreamMode ''class-2'' SCREEN mock_sample = Inr mock_sample \<and>
    raiseHand ''class-2'' ''student-5'' mock_sample = Inr mock_sample \<and>
    lowerHand ''class-2'' ''student-5'' mock_sample = Inr mock_sample \<and>
    allowSpeaker ''class-2'' ''student-5'' mock_sample = Inr mock_sample \<and>
    muteSpeaker ''class-2'' ''student-5'' mock_sample = Inr mock_sample) \<and>
   (fb_raiseHand ''c-2'' ''s-7'' fb_sample = Inr fb_sample \<and>
    fb_lowerHand ''c-2'' ''s-7'' fb_sample = Inr fb_sample \<and>
    fb_allowSpeaker ''c-2'' ''s-7'' fb_sample = Inr fb_sample \<and>
    fb_updateStreamMode ''c-2'' SCREEN fb_sample = Inl NotFound) \<and>
   fb_setClassLiveStatus ''c-2'' True 1700000360000 fb_sample = Inl NotFound"
proof -
  note inst = missing_target_unchanged [where s = mock_sample and cid = "''class-404''"
      and sid = "''class-2''" and live = True and m = SCREEN and u = "''student-5''"
      and t = fb_sample and fsid = "''c-2''" and fcid = "''c-2''" and fu = "''s-7''"
      and now = 1700000360000]
  note r1 = inst [THEN conjunct1, rule_format, OF mock_sample_no_class]
  note r2 = inst [THEN conjunct2, THEN conjunct1, rule_format, OF mock_sample_read2]
  note r3 = inst [THEN conjunct2, THEN conjunct2, THEN conjunct1, rule_format,
      OF fb_sample_read2]
  note r4 = inst [THEN conjunct2, THEN conjunct2, THEN conjunct2, rule_format,
      OF conjI [OF doc_c2 fb_sample_no_class2]]
  show ?thesis
    by (rule conjI [OF r1 conjI [OF r2 conjI [OF r3 r4]]])
qed

section \<open>What a session mutation leaves alone\<close>





section \<open>Starting a session that is already live\<close>

lemma restart_mock:
  assumes "reachable s" and "getLiveSessionState s cid = Some (Session sess)"
  shows "getLiveSessionState (setClassLiveStatus cid True s) cid =
           Some (Session \<lparr>classId = cid, isLive = True, mode = CAMERA,
                          raisedHands = [], activeSpeakers = []\<rparr>)"
proof -
  from assms(2) have "LIVE_SESSIONS s cid \<noteq> None"
    by (auto simp: getLiveSessionState_def session_property_def split: option.splits)
  with reachable_live_consistent [OF assms(1), of cid]
  obtain cls where "getClass s cid = Some cls"
    by (auto simp: live_consistent_def split: option.splits)
  then show ?thesis by (rule setClassLiveStatus_fresh)
qed

lemma restart_fb:
  assumes "fb_subscribeToSession t cid = Inr (Some sess)"
    and "doc cid = Inr k" and "fb_classes t k = Some cls"
  shows "\<exists>t'. fb_setClassLiveStatus cid True now t = Inr t' \<and>
              fb_subscribeToSession t' cid =
                Inr (Some \<lparr>classId = cid, isLive = True, mode = CAMERA,
                           raisedHands = [], activeSpeakers = [], started_at = now\<rparr>)"
  using assms(2,3) by (rule fb_setClassLiveStatus_fresh)

text \<open>
  C9. \<open>setClassLiveStatus\<close> with \<open>isLive = true\<close> on a class whose session is
  already live is accepted: the session is replaced by a fresh one with mode CAMERA and
  both membership arrays empty, so every raised hand and every admitted speaker is
  dropped.
\<close>

theorem restart_discards_membership:
  "(reachable s \<and> getLiveSessionState s cid = Some (Session sess) \<longrightarrow>
      getLiveSessionState (setClassLiveStatus cid True s) cid =
        Some (Session \<lparr>classId = cid, isLive = True, mode = CAMERA,
                       raisedHands = [], activeSpeakers = []\<rparr>)) \<and>
   (fb_subscribeToSession t fcid = Inr (Some fsess) \<and>
    doc fcid = Inr k \<and> fb_classes t k = Some fcls \<longrightarrow>
      (\<exists>t'. fb_setClassLiveStatus fcid True now t = Inr t' \<and>
            fb_subscribeToSession t' fcid =
              Inr (Some \<lparr>classId = fcid, isLive = True, mode = CAMERA,
                         raisedHands = [], activeSpeakers = [], started_at = now\<rparr>)))"
  by (rule conjI; rule impI) (auto intro: restart_mock restart_fb)

theorem restart_discards_membership_witness:
  "getLiveSessionState mock_sample ''class-1'' =
     Some (Session \<lparr>classId = ''class-1'', isLive = True, mode = CAMERA,
             raisedHands = [''student-1700000000001''], activeSpeakers = [''student-5'']\<rparr>) \<and>
   getLiveSessionState (setClassLiveStatus ''class-1'' True mock_sample) ''class-1'' =
     Some (Session \<lparr>classId = ''class-1'', isLive = True, mode = CAMERA,
                    raisedHands = [], activeSpeakers = []\<rparr>) \<and>
   fb_subscribeToSession fb_sample ''c-1'' =
     Inr (Some \<lparr>classId = ''c-1'', isLive = True, mode = SCREEN,
                raisedHands = [''s-7'', ''s-8''], activeSpeakers = [''s-9''],
                started_at = 1700000000000\<rparr>) \<and>
   (\<exists>t'. fb_setClassLiveStatus ''c-1'' True 1700000360000 fb_sample = Inr t' \<and>
         fb_subscribeToSession t' ''c-1'' =
           Inr (Some \<lparr>classId = ''c-1'', isLive = True, mode = CAMERA,
                      raisedHands = [], activeSpeakers = [], started_at = 1700000360000\<rparr>))"
proof -
  note h1 = conjI [OF reachable_mock_sample mock_sample_read]
  note h2 = conjI [OF fb_sample_read conjI [OF doc_c1 fb_sample_class]]
  note inst = restart_discards_membership [where s = mock_sample and cid = "''class-1''"
      and t = fb_sample and fcid = "''c-1''" and now = 1700000360000]
  note r1 = inst [THEN conjunct1, rule_format, OF h1]
  note r2 = inst [THEN conjunct2, rule_format, OF h2]
  show ?thesis
    by (rule conjI [OF mock_sample_read conjI [OF r1 conjI [OF fb_sample_read r2]]])
qed

section \<open>Class analytics\<close>

lemma getClassAnalytics_rows:
  "getClassAnalytics s cid =
     map (\<lambda>e. analyticsRow (the (getUserById s (e_student_id e))))
       (filter (\<lambda>e. e_class_id e = cid \<and> getUserById s (e_student_id e) \<noteq> None)
          (enrollments s))"
proof -
  have "map the (filter (\<lambda>u. u \<noteq> None) (map f es)) =
        map (\<lambda>e. the (f e)) (filter (\<lambda>e. f e \<noteq> None) es)"
    for f :: "Enrollment \<Rightarrow> User option" and es
    by (induction es) auto
  then show ?thesis
    by (simp add: getClassAnalytics_def getUserById_def Let_def o_def)
qed

lemma analytics_row_id:
  "getUserById s sid = Some u \<Longrightarrow> a_id (analyticsRow u) = sid"
  by (auto simp: getUserById_def analyticsRow_def Let_def dest: find_Some_P)

lemma analytics_row_ids:
  "map a_id (getClassAnalytics s cid) =
     map e_student_id
       (filter (\<lambda>e. e_class_id e = cid \<and> getUserById s (e_student_id e) \<noteq> None)
          (enrollments s))"
  unfolding getClassAnalytics_rows
  by (auto simp: analytics_row_id)

lemma analytics_row_scores:
  "r \<in> set (getClassAnalytics s cid) \<Longrightarrow>
   a_score r = 70 + seedOf (a_id r) mod 30 \<and> a_attendance r = 80 + seedOf (a_id r) mod 20"
  unfolding getClassAnalytics_rows
  by (auto simp: analyticsRow_def Let_def)

lemma fb_analyticsLoop_rows:
  "fb_analyticsLoop t docs stats =
     (if list_ex (\<lambda>e. isl (doc (e_student_id e))) docs then Inl InvalidArgument
      else Inr (stats @
             map (\<lambda>e. fb_analyticsRow (the (fb_profile t (e_student_id e))))
               (filter (\<lambda>e. fb_profile t (e_student_id e) \<noteq> None) docs)))"
  by (induction docs arbitrary: stats)
     (auto simp: fb_profile_def fb_getUserById_def getDoc_def
        split: sum.splits option.splits dest: doc_error)

lemma fb_getClassAnalytics_rows:
  "fb_getClassAnalytics t cid =
     (if list_ex (\<lambda>e. isl (doc (e_student_id e)))
           (filter (\<lambda>e. e_class_id e = cid) (fb_enrollments t))
      then Inl InvalidArgument
      else Inr (map (\<lambda>e. fb_analyticsRow (the (fb_profile t (e_student_id e))))
                  (filter (\<lambda>e. e_class_id e = cid \<and> fb_profile t (e_student_id e) \<noteq> None)
                     (fb_enrollments t))))"
  by (simp add: fb_getClassAnalytics_def fb_analyticsLoop_rows)

lemma fb_analytics_row_scores:
  "fb_getClassAnalytics t cid = Inr rows \<Longrightarrow> r \<in> set rows \<Longrightarrow>
   a_score r = 85 \<and> a_attendance r = 90"
  unfolding fb_getClassAnalytics_rows
  by (auto simp: fb_analyticsRow_def split: if_splits)

lemma fb_analyticsLoop_same_users:
  "fb_users t' = fb_users t \<Longrightarrow> fb_analyticsLoop t' docs stats = fb_analyticsLoop t docs stats"
  by (induction docs arbitrary: stats) (auto split: sum.splits option.splits)

lemma seed_sample: "seedOf ''student-1700000000001'' = 1453"
  by (simp add: seedOf_def)

lemma mock_sample_analytics:
  "getClassAnalytics mock_sample ''class-1'' =
     [\<lparr>a_id = ''student-1700000000001'', a_name = ''Ada'', a_score = 83, a_attendance = 93\<rparr>]"
  by (simp add: getClassAnalytics_def mock_sample_users mock_sample_enrollments INITIAL_USERS_def
        MOCK_TEACHER_ID_def analyticsRow_def seed_sample Let_def)

lemma fb_sample_analytics:
  "fb_getClassAnalytics fb_sample ''c-1'' =
     Inr [\<lparr>a_id = ''s-7'', a_name = ''Ada'', a_score = 85, a_attendance = 90,
           a_submissions_count = 5\<rparr>]"
  by (simp add: fb_getClassAnalytics_def fb_sample_def getDoc_def doc_s7 doc_s0
        fb_analyticsRow_def)

text \<open>
  C10, as stated: \<open>getClassAnalytics\<close> returns one row for each enrolment of the class
  whose student id resolves to a profile and silently leaves out the others. In the
  Firestore back end an enrolment whose student id makes no document reference, such as
  the empty string, is not left out: the whole call is rejected.
\<close>

theorem fb_getClassAnalytics_empty_student_counterexample:
  "fb_getClassAnalytics fb_sample_empty_student ''c-1'' = Inl InvalidArgument"
  by (simp add: fb_getClassAnalytics_def fb_sample_empty_student_def fb_sample_def getDoc_def
        doc_s7 doc_s0 doc_empty)

text \<open>
  C10, amended. \<open>getClassAnalytics\<close> returns exactly one row for each enrolment of the
  class whose student id resolves to a user profile, in enrolment order, and leaves out
  the enrolments whose profile does not exist; in the Firestore back end this holds when
  every student id enrolled in the class makes a document reference, and otherwise the
  call is rejected. The score and attendance of a row depend on the row's student id
  alone (in the in-memory back end through the sum of the id's character codes, in the
  Firestore back end they are the constants 85 and 90), and two stores with the same
  enrolments and profiles give the same result.
\<close>

theorem analytics_one_row_per_resolved_enrollment:
  "getClassAnalytics s cid =
     map (\<lambda>e. analyticsRow (the (getUserById s (e_student_id e))))
       (filter (\<lambda>e. e_class_id e = cid \<and> getUserById s (e_student_id e) \<noteq> None)
          (enrollments s)) \<and>
   map a_id (getClassAnalytics s cid) =
     map e_student_id
       (filter (\<lambda>e. e_class_id e = cid \<and> getUserById s (e_student_id e) \<noteq> None)
          (enrollments s)) \<and>
   (\<forall>r \<in> set (getClassAnalytics s cid).
      a_score r = 70 + seedOf (a_id r) mod 30 \<and> a_attendance r = 80 + seedOf (a_id r) mod 20) \<and>
   (users s' = users s \<and> enrollments s' = enrollments s \<longrightarrow>
      getClassAnalytics s' cid = getClassAnalytics s cid) \<and>
   fb_getClassAnalytics t fcid =
     (if list_ex (\<lambda>e. isl (doc (e_student_id e)))
           (filter (\<lambda>e. e_class_id e = fcid) (fb_enrollments t))
      then Inl InvalidArgument
      else Inr (map (\<lambda>e. fb_analyticsRow (the (fb_profile t (e_student_id e))))
                  (filter (\<lambda>e. e_class_id e = fcid \<and> fb_profile t (e_student_id e) \<noteq> None)
                     (fb_enrollments t)))) \<and>
   (\<forall>rows. fb_getClassAnalytics t fcid = Inr rows \<longrightarrow>
      (\<forall>r \<in> set rows. a_score r = 85 \<and> a_attendance r = 90)) \<and>
   (fb_users t' = fb_users t \<and> fb_enrollments t' = fb_enrollments t \<longrightarrow>
      fb_getClassAnalytics t' fcid = fb_getClassAnalytics t fcid)"
proof -
  have c3: "\<forall>r \<in> set (getClassAnalytics s cid).
      a_score r = 70 + seedOf (a_id r) mod 30 \<and> a_attendance r = 80 + seedOf (a_id r) mod 20"
    by (rule ballI) (rule analytics_row_scores)
  have c4: "users s' = users s \<and> enrollments s' = enrollments s \<longrightarrow>
      getClassAnalytics s' cid = getClassAnalytics s cid"
    by (simp add: getClassAnalytics_def)
  have c6: "\<forall>rows. fb_getClassAnalytics t fcid = Inr rows \<longrightarrow>
      (\<forall>r \<in> set rows. a_score r = 85 \<and> a_attendance r = 90)"
  proof (intro allI impI ballI)
    fix rows r
    assume "fb_getClassAnalytics t fcid = Inr rows" and "r \<in> set rows"
    then show "a_score r = 85 \<and> a_attendance r = 90"
      by (rule fb_analytics_row_scores)
  qed
  have c7: "fb_users t' = fb_users t \<and> fb_enrollments t' = fb_enrollments t \<longrightarrow>
      fb_getClassAnalytics t' fcid = fb_getClassAnalytics t fcid"
  proof
    assume same: "fb_users t' = fb_users t \<and> fb_enrollments t' = fb_enrollments t"
    then have "fb_analyticsLoop t' docs [] = fb_analyticsLoop t docs []" for docs
      by (intro fb_analyticsLoop_same_users) simp
    with same show "fb_getClassAnalytics t' fcid = fb_getClassAnalytics t fcid"
      by (simp add: fb_getClassAnalytics_def)
  qed
  show ?thesis
    by (rule conjI [OF getClassAnalytics_rows conjI [OF analytics_row_ids conjI [OF c3
          conjI [OF c4 conjI [OF fb_getClassAnalytics_rows conjI [OF c6 c7]]]]]])
qed

theorem analytics_one_row_per_resolved_enrollment_witness:
  "\<lparr>a_id = ''student-1700000000001'', a_name = ''Ada'', a_score = 83, a_attendance = 93\<rparr>
     \<in> set (getClassAnalytics mock_sample ''class-1'') \<and>
   ((83::nat) = 70 + seedOf ''student-1700000000001'' mod 30 \<and>
    (93::nat) = 80 + seedOf ''student-1700000000001'' mod 20) \<and>
   (users (setClassLiveStatus ''class-1'' False mock_sample) = users mock_sample \<and>
    enrollments (setClassLiveStatus ''class-1'' False mock_sample) =
      enrollments mock_sample) \<and>
   getClassAnalytics (setClassLiveStatus ''class-1'' False mock_sample) ''class-1'' =
     getClassAnalytics mock_sample ''class-1'' \<and>
   fb_getClassAnalytics fb_sample ''c-1'' =
     Inr [\<lparr>a_id = ''s-7'', a_name = ''Ada'', a_score = 85, a_attendance = 90,
           a_submissions_count = 5\<rparr>] \<and>
   (a_score \<lparr>a_id = ''s-7'', a_name = ''Ada'', a_score = 85, a_attendance = 90,
              a_submissions_count = 5\<rparr> = 85 \<and>
    a_attendance \<lparr>a_id = ''s-7'', a_name = ''Ada'', a_score = 85, a_attendance = 90,
                   a_submissions_count = 5\<rparr> = 90) \<and>
   (fb_users (fb_sample\<lparr>fb_sessions := Map.empty\<rparr>) = fb_users fb_sample \<and>
    fb_enrollments (fb_sample\<lparr>fb_sessions := Map.empty\<rparr>) = fb_enrollments fb_sample) \<and>
   fb_getClassAnalytics (fb_sample\<lparr>fb_sessions := Map.empty\<rparr>) ''c-1'' =
     fb_getClassAnalytics fb_sample ''c-1''"
proof -
  let ?r = "\<lparr>a_id = ''student-1700000000001'', a_name = ''Ada'', a_score = 83,
             a_attendance = 93\<rparr>"
  let ?s' = "setClassLiveStatus ''class-1'' False mock_sample"
  let ?t' = "fb_sample\<lparr>fb_sessions := Map.empty\<rparr>"
  note inst = analytics_one_row_per_resolved_enrollment
      [of mock_sample "''class-1''" ?s' fb_sample "''c-1''" ?t']
  note c3 = inst [THEN conjunct2, THEN conjunct2, THEN conjunct1]
  note c4 = inst [THEN conjunct2, THEN conjunct2, THEN conjunct2, THEN conjunct1]
  note c6 = inst [THEN conjunct2, THEN conjunct2, THEN conjunct2, THEN conjunct2,
      THEN conjunct2, THEN conjunct1]
  note c7 = inst [THEN conjunct2, THEN conjunct2, THEN conjunct2, THEN conjunct2,
      THEN conjunct2, THEN conjunct2]
  have mem: "?r \<in> set (getClassAnalytics mock_sample ''class-1'')"
    by (simp add: mock_sample_analytics)
  have same: "users ?s' = users mock_sample \<and> enrollments ?s' = enrollments mock_sample"
    by (simp add: setClassLiveStatus_def Let_def split: option.splits)
  have fsame: "fb_users ?t' = fb_users fb_sample \<and> fb_enrollments ?t' = fb_enrollments fb_sample"
    by simp
  from c3 [rule_format, OF mem]
  have scores: "(83::nat) = 70 + seedOf ''student-1700000000001'' mod 30 \<and>
    (93::nat) = 80 + seedOf ''student-1700000000001'' mod 20"
    by simp
  note eq = c4 [rule_format, OF same]
  have fmem: "\<lparr>a_id = ''s-7'', a_name = ''Ada'', a_score = 85, a_attendance = 90,
      a_submissions_count = 5\<rparr> \<in> set [\<lparr>a_id = ''s-7'', a_name = ''Ada'', a_score = 85,
      a_attendance = 90, a_submissions_count = 5\<rparr>]"
    by simp
  note fscores = c6 [rule_format, OF fb_sample_analytics fmem]
  note feq = c7 [rule_format, OF fsame]
  show ?thesis
    by (rule conjI [OF mem conjI [OF scores conjI [OF same conjI [OF eq
          conjI [OF fb_sample_analytics conjI [OF fscores conjI [OF fsame feq]]]]]]])
qed

end
